theory Spec2Isabelle
  imports Main
begin

section \<open>The document model the delete command works on\<close>

text \<open>
  The delete command (\<^verbatim>\<open>packages/ckeditor5-typing/src/deletecommand.js\<close>) is the only
  source file. It drives the engine's document model, the schema, the data controller
  and the change buffer, none of which is among the sources. The document model and
  the change buffer are modelled from the specification; the two content algorithms
  (\<^verbatim>\<open>modifySelection\<close>, \<^verbatim>\<open>deleteContent\<close>), the schema's table and the position
  predicate \<^verbatim>\<open>isTouching\<close> are parameters of the command, so every theorem below
  holds for every implementation of them.
\<close>

text \<open>
  Modelled from the spec: the engine's document tree (\<^verbatim>\<open>Element\<close>, \<^verbatim>\<open>Text\<close>) is
  missing. Section 9 asks for a closed variant "element vs. text-like leaf". A text
  node of \<open>n\<close> characters occupies \<open>n\<close> offsets of its parent, so text is kept as one
  leaf per character; an offset is then an index into the list of children.
\<close>

datatype node = Element string "node list" | TextChar char

type_synonym path = "nat list"

text \<open>
  Modelled from the spec: \<^verbatim>\<open>node.name\<close> of the missing engine; a text leaf has no
  name (\<^verbatim>\<open>undefined\<close> in the source language), which is \<open>None\<close>.
\<close>

fun nodeName :: "node \<Rightarrow> string option" where
  "nodeName (Element n cs) = Some n"
| "nodeName (TextChar c) = None"

text \<open>Modelled from the spec: the children of a node of the missing engine; a leaf has none.\<close>

fun getChildren :: "node \<Rightarrow> node list" where
  "getChildren (Element n cs) = cs"
| "getChildren (TextChar c) = []"

text \<open>
  Modelled from the spec: node lookup of the missing engine. An element is named by the
  path of child indices that leads to it from the root; a path that leaves the tree
  finds nothing.
\<close>

fun getNodeByPath :: "node \<Rightarrow> path \<Rightarrow> node option" where
  "getNodeByPath n [] = Some n"
| "getNodeByPath n (i # p) =
     (if i < length (getChildren n) then getNodeByPath (getChildren n ! i) p else None)"

definition elementName :: "node \<Rightarrow> path \<Rightarrow> string option" where
  "elementName root p = (case getNodeByPath root p of None \<Rightarrow> None | Some n \<Rightarrow> nodeName n)"

definition childrenAt :: "node \<Rightarrow> path \<Rightarrow> node list" where
  "childrenAt root p = (case getNodeByPath root p of None \<Rightarrow> [] | Some n \<Rightarrow> getChildren n)"

text \<open>Modelled from the spec: \<^verbatim>\<open>element.maxOffset\<close> of the missing engine, the number of
  offsets inside an element.\<close>

definition maxOffset :: "node \<Rightarrow> path \<Rightarrow> nat" where
  "maxOffset root p = length (childrenAt root p)"

text \<open>
  Modelled from the spec: the children of the element at a path are replaced by
  \<open>f\<close> of them; a path that leaves the tree, or ends at a text leaf, changes nothing.
  This is the one primitive the mutation scope's operations are written with.
\<close>

fun updateChildren :: "path \<Rightarrow> (node list \<Rightarrow> node list) \<Rightarrow> node \<Rightarrow> node" where
  "updateChildren [] f n =
     (case n of Element nm cs \<Rightarrow> Element nm (f cs) | TextChar c \<Rightarrow> TextChar c)"
| "updateChildren (i # p) f n =
     (case n of
        Element nm cs \<Rightarrow>
          if i < length cs then Element nm (cs[i := updateChildren p f (cs ! i)]) else n
      | TextChar c \<Rightarrow> TextChar c)"

subsection \<open>Positions and ranges\<close>

text \<open>
  Modelled from the spec: \<^verbatim>\<open>Position\<close> of the missing engine (section 3: "a location
  in the tree (element + offset ...)"). \<open>parent\<close> is the path of the element the
  position is in and \<open>offset\<close> the offset inside it.
\<close>

record position =
  parent :: path
  offset :: nat

definition getPath :: "position \<Rightarrow> path" where
  "getPath p = parent p @ [offset p]"

text \<open>Modelled from the spec: \<^verbatim>\<open>Position.createAt( element )\<close> and
  \<^verbatim>\<open>Position.createAt( element, 'end' )\<close> of the missing engine: the start and the end
  boundary inside an element.\<close>

definition createAt :: "path \<Rightarrow> position" where
  "createAt element = \<lparr>parent = element, offset = 0\<rparr>"

definition createAtEnd :: "node \<Rightarrow> path \<Rightarrow> position" where
  "createAtEnd root element = \<lparr>parent = element, offset = maxOffset root element\<rparr>"

text \<open>Modelled from the spec: document order of positions of the missing engine: paths
  are compared index by index, and a path is before its extensions.\<close>

fun pathBefore :: "path \<Rightarrow> path \<Rightarrow> bool" where
  "pathBefore [] [] = False"
| "pathBefore [] (y # ys) = True"
| "pathBefore (x # xs) [] = False"
| "pathBefore (x # xs) (y # ys) = (if x = y then pathBefore xs ys else x < y)"

definition isBefore :: "position \<Rightarrow> position \<Rightarrow> bool" where
  "isBefore p q = pathBefore (getPath p) (getPath q)"

definition isAfter :: "position \<Rightarrow> position \<Rightarrow> bool" where
  "isAfter p q = pathBefore (getPath q) (getPath p)"

text \<open>Modelled from the spec: \<^verbatim>\<open>Range\<close> of the missing engine (section 3: "a start/end
  pair of Positions").\<close>

record range =
  rangeStart :: position
  rangeEnd :: position

text \<open>Modelled from the spec: \<^verbatim>\<open>Range.createIn( element )\<close> of the missing engine, the
  range that spans the whole content of an element.\<close>

definition createIn :: "node \<Rightarrow> path \<Rightarrow> range" where
  "createIn root element =
     \<lparr>rangeStart = createAt element, rangeEnd = createAtEnd root element\<rparr>"

fun commonPath :: "path \<Rightarrow> path \<Rightarrow> path" where
  "commonPath (x # xs) (y # ys) = (if x = y then x # commonPath xs ys else [])"
| "commonPath xs ys = []"

text \<open>Modelled from the spec: \<^verbatim>\<open>range.getCommonAncestor()\<close> of the missing engine: the
  deepest element that contains both ends of the range, as its path.\<close>

definition getCommonAncestor :: "range \<Rightarrow> path" where
  "getCommonAncestor r = commonPath (parent (rangeStart r)) (parent (rangeEnd r))"

text \<open>
  Modelled from the spec: \<^verbatim>\<open>range.getMinimalFlatRanges()\<close> of the missing engine
  (section 3: a range is "decomposable into a sequence of minimal flat ranges (maximal
  contiguous sub-ranges that do not cross element boundaries)"). From the start the
  decomposition first climbs to the level below the common ancestor, taking the rest of
  each element it leaves, then descends to the end, taking what lies before the end at
  each level. Empty pieces are left out. Ranges are taken to be well-formed (start not
  after end, offsets inside their parents); elsewhere the truncating subtraction of
  \<open>nat\<close> yields an empty piece.
\<close>

function flatRangesUp :: "node \<Rightarrow> nat \<Rightarrow> position \<Rightarrow> range list \<times> position" where
  "flatRangesUp root diffAt pos =
     (if diffAt < length (parent pos) then
        (let howMany = maxOffset root (parent pos) - offset pos;
             piece = (if howMany \<noteq> 0
                      then [\<lparr>rangeStart = pos, rangeEnd = pos\<lparr>offset := offset pos + howMany\<rparr>\<rparr>]
                      else []);
             (rest, final) = flatRangesUp root diffAt
                 \<lparr>parent = butlast (parent pos), offset = last (parent pos) + 1\<rparr>
         in (piece @ rest, final))
      else ([], pos))"
  by pat_completeness auto
termination
  by (relation "measure (\<lambda>(root, diffAt, pos). length (parent pos))") auto

function flatRangesDown :: "path \<Rightarrow> position \<Rightarrow> range list" where
  "flatRangesDown endPath pos =
     (if length (parent pos) < length endPath then
        (let off = endPath ! length (parent pos);
             howMany = off - offset pos;
             piece = (if howMany \<noteq> 0
                      then [\<lparr>rangeStart = pos, rangeEnd = pos\<lparr>offset := offset pos + howMany\<rparr>\<rparr>]
                      else [])
         in piece @ flatRangesDown endPath \<lparr>parent = parent pos @ [off], offset = 0\<rparr>)
      else [])"
  by pat_completeness auto
termination
  by (relation "measure (\<lambda>(endPath, pos). length endPath - length (parent pos))") auto

definition getMinimalFlatRanges :: "node \<Rightarrow> range \<Rightarrow> range list" where
  "getMinimalFlatRanges root r =
     (let diffAt = length (commonPath (getPath (rangeStart r)) (getPath (rangeEnd r)));
          (up, pos) = flatRangesUp root diffAt (rangeStart r)
      in up @ flatRangesDown (getPath (rangeEnd r)) pos)"

text \<open>
  Modelled from the spec: \<^verbatim>\<open>range.getWalker( { singleCharacters: true,
  ignoreElementEnd: true, shallow: true } )\<close> of the missing engine, on a flat range
  (section 4.1 step 6: "single-character granularity, element-end boundaries excluded
  from the count, traversal is shallow per flat range"). The walk yields the items
  between the two offsets: one per character, one per element, which it does not enter,
  and nothing for the end of an element.
\<close>

definition getWalker :: "node \<Rightarrow> range \<Rightarrow> node list" where
  "getWalker root r =
     take (offset (rangeEnd r) - offset (rangeStart r))
       (drop (offset (rangeStart r)) (childrenAt root (parent (rangeStart r))))"

text \<open>Modelled from the spec: \<^verbatim>\<open>count\<close> of the missing utilities, the number of items an
  iterator yields.\<close>

definition count :: "'a list \<Rightarrow> nat" where
  "count items = length items"

subsection \<open>Selections\<close>

text \<open>
  Modelled from the spec: \<^verbatim>\<open>Selection\<close> of the missing engine (section 3: ranges with a
  collapsed state and a backward flag). The document's selection always holds a range
  (the engine supplies a default one), and the command's working selection is a copy of
  it, so the ranges are a first range and the list of the others.
\<close>

record selection =
  range0 :: range
  moreRanges :: "range list"
  lastRangeBackward :: bool

definition getRanges :: "selection \<Rightarrow> range list" where
  "getRanges s = range0 s # moreRanges s"

text \<open>Modelled from the spec: glossary, "a selection whose start and end positions
  coincide (a caret, no content selected)".\<close>

definition isCollapsed :: "selection \<Rightarrow> bool" where
  "isCollapsed s = (moreRanges s = [] \<and> rangeStart (range0 s) = rangeEnd (range0 s))"

definition isBackward :: "selection \<Rightarrow> bool" where
  "isBackward s = (\<not> isCollapsed s \<and> lastRangeBackward s)"

text \<open>Modelled from the spec: the first range of a selection is the one that starts
  first in document order, the last range the one that ends last.\<close>

definition getFirstRange :: "selection \<Rightarrow> range" where
  "getFirstRange s =
     foldl (\<lambda>first r. if isBefore (rangeStart r) (rangeStart first) then r else first)
       (range0 s) (moreRanges s)"

definition getLastRange :: "selection \<Rightarrow> range" where
  "getLastRange s =
     foldl (\<lambda>lst r. if isAfter (rangeEnd r) (rangeEnd lst) then r else lst)
       (range0 s) (moreRanges s)"

definition getFirstPosition :: "selection \<Rightarrow> position" where
  "getFirstPosition s = rangeStart (getFirstRange s)"

definition getLastPosition :: "selection \<Rightarrow> position" where
  "getLastPosition s = rangeEnd (getLastRange s)"

text \<open>Modelled from the spec: \<^verbatim>\<open>selection.setRanges( ranges, isLastBackward )\<close> of the
  missing engine. The document's selection given no range falls back to the default
  range, taken here as the start of the root.\<close>

fun setRanges :: "range list \<Rightarrow> bool \<Rightarrow> selection \<Rightarrow> selection" where
  "setRanges (r # rs) b s = \<lparr>range0 = r, moreRanges = rs, lastRangeBackward = b\<rparr>"
| "setRanges [] b s =
     \<lparr>range0 = \<lparr>rangeStart = createAt [], rangeEnd = createAt []\<rparr>, moreRanges = [],
      lastRangeBackward = b\<rparr>"

text \<open>Modelled from the spec: \<^verbatim>\<open>selection.collapse( element )\<close> of the missing engine:
  the selection becomes a caret at the start of the element.\<close>

definition collapse :: "path \<Rightarrow> selection \<Rightarrow> selection" where
  "collapse element s =
     setRanges [\<lparr>rangeStart = createAt element, rangeEnd = createAt element\<rparr>] False s"

subsection \<open>The mutation scope\<close>

text \<open>
  Modelled from the spec: \<^verbatim>\<open>batch.remove( range )\<close> and \<^verbatim>\<open>batch.insert( position,
  node )\<close> of the missing engine (section 6: the mutation scope "exposes
  \<^verbatim>\<open>remove(range)\<close> and \<^verbatim>\<open>insert(position, node)\<close>"). A flat range loses the children
  between its offsets; a range is removed flat piece by flat piece, last piece first,
  so that the earlier pieces keep their offsets. An inserted node becomes the child at
  the position's offset.
\<close>

definition removeFlat :: "range \<Rightarrow> node \<Rightarrow> node" where
  "removeFlat r root =
     updateChildren (parent (rangeStart r))
       (\<lambda>cs. take (offset (rangeStart r)) cs @ drop (offset (rangeEnd r)) cs) root"

definition batchRemove :: "range \<Rightarrow> node \<Rightarrow> node" where
  "batchRemove r root = fold removeFlat (rev (getMinimalFlatRanges root r)) root"

definition batchInsert :: "position \<Rightarrow> node \<Rightarrow> node \<Rightarrow> node" where
  "batchInsert pos n root =
     updateChildren (parent pos) (\<lambda>cs. take (offset pos) cs @ n # drop (offset pos) cs) root"

subsection \<open>The change buffer\<close>

text \<open>
  Modelled from the spec: \<^verbatim>\<open>ChangeBuffer\<close> (\<^verbatim>\<open>./changebuffer\<close>) is missing. Section 3
  gives its state, "a running unit count and a lock depth counter", and section 4.2 its
  operations: \<^verbatim>\<open>lock()\<close> / \<^verbatim>\<open>unlock()\<close> "may nest (depth-counted)", \<^verbatim>\<open>input(count)\<close>
  "accumulates deleted-unit count", and "calling \<^verbatim>\<open>input\<close> without an open lock is a
  contract violation (must fail fast)". The flush policy (threshold, idle timeout) is
  not modelled. The spec does not say what \<^verbatim>\<open>unlock\<close> does at depth zero; the depth
  stays zero there.
\<close>

record changeBuffer =
  lockDepth :: nat
  bufferSize :: nat

datatype error = ContractViolation

definition lock :: "changeBuffer \<Rightarrow> changeBuffer" where
  "lock b = b\<lparr>lockDepth := lockDepth b + 1\<rparr>"

definition unlock :: "changeBuffer \<Rightarrow> changeBuffer" where
  "unlock b = (if lockDepth b = 0 then b else b\<lparr>lockDepth := lockDepth b - 1\<rparr>)"

definition input :: "nat \<Rightarrow> changeBuffer \<Rightarrow> error + changeBuffer" where
  "input changeCount b =
     (if lockDepth b = 0 then Inl ContractViolation
      else Inr (b\<lparr>bufferSize := bufferSize b + changeCount\<rparr>))"

section \<open>The command\<close>

datatype direction = Forward | Backward

text \<open>The options of \<^verbatim>\<open>execute\<close>; a field the caller left out is \<open>None\<close>. The
  sequence is a count of key events and is kept as an integer; a caller may hand in any
  integer, also one below 1.\<close>

record options =
  unit :: "string option"
  sequence :: "int option"

text \<open>
  The collaborators the command reaches through \<^verbatim>\<open>this.editor\<close>. They are not among
  the sources and the spec gives only their interfaces (section 6), so they are
  parameters:
  \<^item> \<open>modifySelection\<close>: \<^verbatim>\<open>dataController.modifySelection( selection, { direction,
    unit } )\<close> reads the document and returns the working selection as it left it;
  \<^item> \<open>deleteContent\<close>: \<^verbatim>\<open>dataController.deleteContent( selection, batch,
    { doNotResetEntireContent } )\<close> is given the working selection, the flag, the tree
    and the document's selection and returns the new tree, the document's selection as
    the removal left it, and the working selection; it is handed the batch, not the
    buffer, so it cannot touch the lock depth;
  \<^item> \<open>isTouching\<close>: \<^verbatim>\<open>position.isTouching( other )\<close>, which reads the tree;
  \<^item> \<open>schemaLimits\<close>: the names the schema flags as limit elements;
  \<^item> \<open>schemaCheck\<close>: \<^verbatim>\<open>schema.check( { name, inside } )\<close>.
\<close>

record editor =
  modifySelection :: "direction \<Rightarrow> string option \<Rightarrow> node \<Rightarrow> selection \<Rightarrow> selection"
  deleteContent :: "selection \<Rightarrow> bool \<Rightarrow> node \<Rightarrow> selection \<Rightarrow> node \<times> selection \<times> selection"
  isTouching :: "node \<Rightarrow> position \<Rightarrow> position \<Rightarrow> bool"
  schemaLimits :: "string list"
  schemaCheck :: "string \<Rightarrow> string option \<Rightarrow> bool"

text \<open>
  Modelled from the spec: \<^verbatim>\<open>schema.getLimitElement( selection )\<close> is missing. Section 3:
  "the nearest ancestor element flagged by the schema as a content boundary (e.g., the
  editing root or a boundary container) containing the current selection". The search
  starts at the deepest element that contains every range and climbs until the name is
  a limit or the root is reached.
\<close>

function findLimit :: "string list \<Rightarrow> node \<Rightarrow> path \<Rightarrow> path" where
  "findLimit limits root element =
     (case elementName root element of
        None \<Rightarrow> (if element = [] then element else findLimit limits root (butlast element))
      | Some nm \<Rightarrow>
          if nm \<in> set limits \<or> element = [] then element
          else findLimit limits root (butlast element))"
  by pat_completeness auto
termination
  by (relation "measure (\<lambda>(limits, root, element). length element)") auto

definition getLimitElement :: "editor \<Rightarrow> node \<Rightarrow> selection \<Rightarrow> path" where
  "getLimitElement ed root s =
     findLimit (schemaLimits ed) root
       (foldl commonPath (getCommonAncestor (range0 s)) (map getCommonAncestor (moreRanges s)))"

text \<open>
  What the command can change: the document (tree and selection) and its change buffer.
  \<open>trace\<close> is not a field of the program: it records, for the claims about order and
  about what was handed to a collaborator, each call the command made that changes
  something or hands work to a collaborator, in the order execution reached them. No
  branch of the command reads it.
\<close>

datatype event =
    Lock
  | Unlock
  | ModifySelection direction "string option"
  | DeleteContent selection bool
  | Input nat
  | SetRanges "range list" bool
  | Remove range
  | Insert position node
  | Collapse path

record state =
  root :: node
  docSelection :: selection
  buffer :: changeBuffer
  trace :: "event list"

text \<open>
  \<^verbatim>\<open>_shouldEntireContentBeReplacedWithParagraph( sequence )\<close>, lines 126 to 155. It
  returns its verdict together with the state it leaves behind.
\<close>

definition shouldEntireContentBeReplacedWithParagraph ::
    "editor \<Rightarrow> int \<Rightarrow> state \<Rightarrow> bool \<times> state" where
  "shouldEntireContentBeReplacedWithParagraph ed seqNo st =
     (if seqNo > 1 then (False, st)
      else
        (let selection = docSelection st;
             limitElement = getLimitElement ed (root st) selection;
             limitStartPosition = createAt limitElement;
             limitEndPosition = createAtEnd (root st) limitElement
         in if \<not> isTouching ed (root st) limitStartPosition (getFirstPosition selection)
            then (False, st)
            else if \<not> isTouching ed (root st) limitEndPosition (getLastPosition selection)
            then (False, st)
            else if \<not> schemaCheck ed ''paragraph'' (elementName (root st) limitElement)
            then (False, st)
            else if elementName (root st) (getCommonAncestor (getFirstRange selection))
                      = Some ''paragraph''
            then (False, st)
            else (True, st)))"

text \<open>
  \<^verbatim>\<open>_replaceEntireContentWithParagraph()\<close>, lines 162 to 172. The new paragraph is
  inserted at the start of the limit element, so its path is that of the position it
  was inserted at. The engine moves the ranges of the document's selection along with
  the removal and the insertion; the model leaves them where they were in between,
  since \<^verbatim>\<open>selection.collapse( paragraph )\<close> of line 171 sets all of them anew.
\<close>

definition replaceEntireContentWithParagraph :: "editor \<Rightarrow> state \<Rightarrow> state" where
  "replaceEntireContentWithParagraph ed st =
     (let selection = docSelection st;
          limitElement = getLimitElement ed (root st) selection;
          paragraph = Element ''paragraph'' [];
          removed = createIn (root st) limitElement;
          st1 = st\<lparr>root := batchRemove removed (root st), trace := trace st @ [Remove removed]\<rparr>;
          at = createAt limitElement;
          st2 = st1\<lparr>root := batchInsert at paragraph (root st1),
                    trace := trace st1 @ [Insert at paragraph]\<rparr>
      in st2\<lparr>docSelection := collapse (getPath at) (docSelection st2),
             trace := trace st2 @ [Collapse (getPath at)]\<rparr>)"

text \<open>\<^verbatim>\<open>options.sequence || 1\<close>, line 86: a missing or zero sequence is 1.\<close>

definition sequenceOrDefault :: "options \<Rightarrow> int" where
  "sequenceOrDefault opts =
     (case sequence opts of None \<Rightarrow> 1 | Some n \<Rightarrow> if n = 0 then 1 else n)"

text \<open>
  The sum of lines 95 to 101: the items of a shallow single-character walk of each
  minimal flat range of the working selection's first range.
\<close>

definition changeCountOf :: "node \<Rightarrow> selection \<Rightarrow> nat" where
  "changeCountOf rt s =
     foldl (\<lambda>changeCount r. changeCount + count (getWalker rt r)) 0
       (getMinimalFlatRanges rt (getFirstRange s))"

text \<open>
  \<^verbatim>\<open>execute( options )\<close>, lines 63 to 110: the function handed to
  \<^verbatim>\<open>doc.enqueueChanges\<close>, which runs it at once as one document update. The early
  return of line 92 leaves the function before line 108.
\<close>

definition execute :: "editor \<Rightarrow> direction \<Rightarrow> options \<Rightarrow> state \<Rightarrow> error + state" where
  "execute ed dir opts st =
     (let st1 = st\<lparr>buffer := lock (buffer st), trace := trace st @ [Lock]\<rparr>;
          selection = docSelection st1;
          doNotResetEntireContent = isCollapsed selection;
          (selection1, st2) =
            (if isCollapsed selection
             then (modifySelection ed dir (unit opts) (root st1) selection,
                   st1\<lparr>trace := trace st1 @ [ModifySelection dir (unit opts)]\<rparr>)
             else (selection, st1))
      in if isCollapsed selection1 then
           (let seqNo = sequenceOrDefault opts;
                (replace, st3) = shouldEntireContentBeReplacedWithParagraph ed seqNo st2
            in if replace then Inr (replaceEntireContentWithParagraph ed st3) else Inr st3)
         else
           (let changeCount = changeCountOf (root st2) selection1;
                (root', live', selection2) =
                  deleteContent ed selection1 doNotResetEntireContent (root st2) (docSelection st2);
                st3 = st2\<lparr>root := root', docSelection := live',
                          trace := trace st2 @ [DeleteContent selection1 doNotResetEntireContent]\<rparr>
            in case input changeCount (buffer st3) of
                 Inl e \<Rightarrow> Inl e
               | Inr b \<Rightarrow>
                   (let st4 = st3\<lparr>buffer := b, trace := trace st3 @ [Input changeCount]\<rparr>;
                        st5 = st4\<lparr>docSelection :=
                                    setRanges (getRanges selection2) (isBackward selection2)
                                      (docSelection st4),
                                  trace := trace st4 @
                                    [SetRanges (getRanges selection2) (isBackward selection2)]\<rparr>
                    in Inr (st5\<lparr>buffer := unlock (buffer st5), trace := trace st5 @ [Unlock]\<rparr>))))"

section \<open>A reference editor and documents to run the command on\<close>

text \<open>
  The theorems about the command hold for every editor. To run the command on a
  document, the parameters are filled in with small stand-ins for the engine's
  algorithms: positions touch when nothing but element boundaries lies between them;
  the selection is extended by one item inside the parent, or across the boundary to
  the neighbouring sibling; content removal takes out the first range and leaves a
  caret at its start, unless it may reset the entire content and the range spans all
  of the root.
\<close>

function touching :: "node \<Rightarrow> path \<Rightarrow> path \<Rightarrow> bool" where
  "touching rt left right =
     (if left = [] \<and> right = [] then False
      else if left = right then True
      else if length right < length left then
        (case rev left of
           off # idx # up \<Rightarrow>
             if off = maxOffset rt (rev (idx # up)) then touching rt (rev (Suc idx # up)) right
             else False
         | _ \<Rightarrow> False)
      else
        (case rev right of
           off # up \<Rightarrow> if off = 0 then touching rt left (rev up) else False
         | [] \<Rightarrow> False))"
  by pat_completeness auto
termination
proof (relation "measure (\<lambda>(rt, left, right). length left + length right)", goal_cases)
  case 1
  show ?case by simp
next
  case (2 rt left right off ys idx up)
  then have "length (rev left) = Suc (Suc (length up))" by simp
  then show ?case by simp
next
  case (3 rt left right off up)
  then have "length (rev right) = Suc (length up)" by simp
  then show ?case by simp
qed

definition exampleIsTouching :: "node \<Rightarrow> position \<Rightarrow> position \<Rightarrow> bool" where
  "exampleIsTouching rt p q =
     (if pathBefore (getPath q) (getPath p) then touching rt (getPath q) (getPath p)
      else touching rt (getPath p) (getPath q))"

definition exampleModifySelection ::
    "direction \<Rightarrow> string option \<Rightarrow> node \<Rightarrow> selection \<Rightarrow> selection" where
  "exampleModifySelection dir u rt s =
     (let pos = rangeStart (range0 s) in
      case dir of
        Backward \<Rightarrow>
          if 0 < offset pos then
            \<lparr>range0 = \<lparr>rangeStart = pos\<lparr>offset := offset pos - 1\<rparr>, rangeEnd = pos\<rparr>,
             moreRanges = [], lastRangeBackward = True\<rparr>
          else
            (case rev (parent pos) of
               idx # up \<Rightarrow>
                 if 0 < idx then
                   \<lparr>range0 = \<lparr>rangeStart = createAtEnd rt (rev ((idx - 1) # up)), rangeEnd = pos\<rparr>,
                    moreRanges = [], lastRangeBackward = True\<rparr>
                 else s
             | [] \<Rightarrow> s)
      | Forward \<Rightarrow>
          if offset pos < maxOffset rt (parent pos) then
            \<lparr>range0 = \<lparr>rangeStart = pos, rangeEnd = pos\<lparr>offset := offset pos + 1\<rparr>\<rparr>,
             moreRanges = [], lastRangeBackward = False\<rparr>
          else
            (case rev (parent pos) of
               idx # up \<Rightarrow>
                 if idx + 1 < maxOffset rt (rev up) then
                   \<lparr>range0 = \<lparr>rangeStart = pos, rangeEnd = createAt (rev ((idx + 1) # up))\<rparr>,
                    moreRanges = [], lastRangeBackward = False\<rparr>
                 else s
             | [] \<Rightarrow> s))"

definition exampleDeleteContent ::
    "selection \<Rightarrow> bool \<Rightarrow> node \<Rightarrow> selection \<Rightarrow> node \<times> selection \<times> selection" where
  "exampleDeleteContent s doNotResetEntireContent rt live =
     (let r = getFirstRange s in
      if doNotResetEntireContent then
        (batchRemove r rt, live,
         setRanges [\<lparr>rangeStart = rangeStart r, rangeEnd = rangeStart r\<rparr>] False s)
      else if exampleIsTouching rt (createAt []) (rangeStart r)
      then
        (if exampleIsTouching rt (createAtEnd rt []) (rangeEnd r)
         then
           (batchInsert (createAt []) (Element ''paragraph'' [])
              (batchRemove (createIn rt []) rt),
            live, collapse [0] s)
         else
           (batchRemove r rt, live,
            setRanges [\<lparr>rangeStart = rangeStart r, rangeEnd = rangeStart r\<rparr>] False s))
      else
        (batchRemove r rt, live,
         setRanges [\<lparr>rangeStart = rangeStart r, rangeEnd = rangeStart r\<rparr>] False s))"

definition exampleEditor :: editor where
  "exampleEditor =
     \<lparr>modifySelection = exampleModifySelection,
      deleteContent = exampleDeleteContent,
      isTouching = exampleIsTouching,
      schemaLimits = [''$root''],
      schemaCheck = (\<lambda>nm inside. nm = ''paragraph'' \<and> inside = Some ''$root'')\<rparr>"

definition caret :: "path \<Rightarrow> nat \<Rightarrow> selection" where
  "caret p off =
     \<lparr>range0 = \<lparr>rangeStart = \<lparr>parent = p, offset = off\<rparr>,
                rangeEnd = \<lparr>parent = p, offset = off\<rparr>\<rparr>,
      moreRanges = [], lastRangeBackward = False\<rparr>"

definition textOf :: "string \<Rightarrow> node list" where
  "textOf cs = map TextChar cs"

text \<open>\<^verbatim>\<open><heading1>[]</heading1>\<close>: a caret in the only, empty block.\<close>

definition emptyHeading :: state where
  "emptyHeading =
     \<lparr>root = Element ''$root'' [Element ''heading1'' []],
      docSelection = caret [0] 0,
      buffer = \<lparr>lockDepth = 0, bufferSize = 0\<rparr>,
      trace = []\<rparr>"

text \<open>\<^verbatim>\<open><paragraph>[]</paragraph>\<close>: the only block is already an empty paragraph.\<close>

definition emptyParagraph :: state where
  "emptyParagraph =
     \<lparr>root = Element ''$root'' [Element ''paragraph'' []],
      docSelection = caret [0] 0,
      buffer = \<lparr>lockDepth = 0, bufferSize = 0\<rparr>,
      trace = []\<rparr>"

text \<open>\<^verbatim>\<open><paragraph>He[llo] World</paragraph>\<close>: three characters selected.\<close>

definition helloWorld :: state where
  "helloWorld =
     \<lparr>root = Element ''$root'' [Element ''paragraph'' (textOf ''Hello World'')],
      docSelection =
        \<lparr>range0 = \<lparr>rangeStart = \<lparr>parent = [0], offset = 2\<rparr>,
                   rangeEnd = \<lparr>parent = [0], offset = 5\<rparr>\<rparr>,
         moreRanges = [], lastRangeBackward = False\<rparr>,
      buffer = \<lparr>lockDepth = 0, bufferSize = 0\<rparr>,
      trace = []\<rparr>"

text \<open>\<^verbatim>\<open><paragraph>[abc</paragraph><paragraph>def]</paragraph>\<close>: a selection that spans
  two sibling elements of three characters each.\<close>

definition twoSiblings :: state where
  "twoSiblings =
     \<lparr>root = Element ''$root''
        [Element ''paragraph'' (textOf ''abc''), Element ''paragraph'' (textOf ''def'')],
      docSelection =
        \<lparr>range0 = \<lparr>rangeStart = \<lparr>parent = [0], offset = 0\<rparr>,
                   rangeEnd = \<lparr>parent = [1], offset = 3\<rparr>\<rparr>,
         moreRanges = [], lastRangeBackward = False\<rparr>,
      buffer = \<lparr>lockDepth = 0, bufferSize = 0\<rparr>,
      trace = []\<rparr>"

text \<open>\<^verbatim>\<open><heading1></heading1><paragraph>[]</paragraph>\<close>: the document of the comment at
  lines 72 to 76; a caret that extending backward turns into a selection across the
  boundary of the two blocks.\<close>

definition headingThenCaret :: state where
  "headingThenCaret =
     \<lparr>root = Element ''$root'' [Element ''heading1'' [], Element ''paragraph'' []],
      docSelection = caret [1] 0,
      buffer = \<lparr>lockDepth = 0, bufferSize = 0\<rparr>,
      trace = []\<rparr>"

text \<open>\<^verbatim>\<open><paragraph>abc[]</paragraph>\<close>: a caret after three characters.\<close>

definition caretAfterAbc :: state where
  "caretAfterAbc =
     \<lparr>root = Element ''$root'' [Element ''paragraph'' (textOf ''abc'')],
      docSelection = caret [0] 3,
      buffer = \<lparr>lockDepth = 0, bufferSize = 0\<rparr>,
      trace = []\<rparr>"

text \<open>The working selection after the extension attempt of lines 70 to 82: a copy of
  the document's selection, extended if it was collapsed.\<close>

definition workingSelection :: "editor \<Rightarrow> direction \<Rightarrow> options \<Rightarrow> state \<Rightarrow> selection" where
  "workingSelection ed dir opts st =
     (if isCollapsed (docSelection st)
      then modifySelection ed dir (unit opts) (root st) (docSelection st)
      else docSelection st)"

text \<open>What a trace says was reported to the change buffer, and with which flag the
  content remover was called.\<close>

fun reportedCounts :: "event list \<Rightarrow> nat list" where
  "reportedCounts [] = []"
| "reportedCounts (Input n # es) = n # reportedCounts es"
| "reportedCounts (e # es) = reportedCounts es"

fun deleteContentCalls :: "event list \<Rightarrow> (selection \<times> bool) list" where
  "deleteContentCalls [] = []"
| "deleteContentCalls (DeleteContent s flag # es) = (s, flag) # deleteContentCalls es"
| "deleteContentCalls (e # es) = deleteContentCalls es"

declare flatRangesUp.simps [simp del]
declare flatRangesDown.simps [simp del]
declare findLimit.simps [simp del]
declare touching.simps [simp del]

section \<open>Lemmas about the document model\<close>

lemma lock_depth: "lockDepth (lock b) = Suc (lockDepth b)"
  by (simp add: lock_def)

lemma getNodeByPath_updateChildren:
  "getNodeByPath rt p = Some (Element nm cs) \<Longrightarrow>
   getNodeByPath (updateChildren p f rt) p = Some (Element nm (f cs))"
proof (induction p arbitrary: rt)
  case Nil
  then show ?case by simp
next
  case (Cons i p)
  then show ?case by (cases rt) (auto split: if_splits)
qed

lemma updateChildren_cong:
  "f (childrenAt rt p) = g (childrenAt rt p) \<Longrightarrow> updateChildren p f rt = updateChildren p g rt"
proof (induction p arbitrary: rt)
  case Nil
  then show ?case by (cases rt) (auto simp: childrenAt_def)
next
  case (Cons i p)
  then show ?case by (cases rt) (auto simp: childrenAt_def)
qed

lemma updateChildren_twice:
  "updateChildren p f (updateChildren p g rt) = updateChildren p (\<lambda>cs. f (g cs)) rt"
proof (induction p arbitrary: rt)
  case Nil
  then show ?case by (cases rt) auto
next
  case (Cons i p)
  then show ?case by (cases rt) auto
qed

lemma childrenAt_updateChildren:
  assumes "elementName rt p = Some nm"
  shows "childrenAt (updateChildren p f rt) p = f (childrenAt rt p)"
proof -
  from assms obtain n where n: "getNodeByPath rt p = Some n" "nodeName n = Some nm"
    by (auto simp: elementName_def split: option.splits)
  then obtain cs where "n = Element nm cs" by (cases n) auto
  with n have "getNodeByPath rt p = Some (Element nm cs)" by simp
  from getNodeByPath_updateChildren[OF this, of f] this show ?thesis
    by (simp add: childrenAt_def)
qed

lemma findLimit_is_element:
  "nodeName rt = Some rootName \<Longrightarrow> \<exists>nm. elementName rt (findLimit limits rt p) = Some nm"
proof (induction limits rt p rule: findLimit.induct)
  case (1 limits rt element)
  show ?case
  proof (cases "elementName rt element")
    case None
    with 1 show ?thesis
      by (subst findLimit.simps) (auto simp: elementName_def)
  next
    case (Some nm)
    with 1 show ?thesis
      by (subst findLimit.simps) (auto simp: elementName_def)
  qed
qed

lemma commonPath_append_same:
  "commonPath (p @ [a]) (p @ [b]) = (if a = b then p @ [a] else p)"
  by (induction p) auto

lemma flatRanges_createIn:
  "getMinimalFlatRanges rt (createIn rt e) =
     (if maxOffset rt e = 0 then [] else [createIn rt e])"
  by (simp add: getMinimalFlatRanges_def createIn_def createAt_def createAtEnd_def getPath_def
      commonPath_append_same flatRangesUp.simps[of rt _ "\<lparr>parent = e, offset = 0\<rparr>"]
      flatRangesDown.simps[of _ "\<lparr>parent = e, offset = 0\<rparr>"]
      flatRangesDown.simps[of _ "\<lparr>parent = e @ [_], offset = 0\<rparr>"] nth_append)

lemma batchRemove_createIn:
  "batchRemove (createIn rt e) rt = updateChildren e (\<lambda>cs. []) rt"
proof (cases "maxOffset rt e = 0")
  case True
  then have "childrenAt rt e = []" by (simp add: maxOffset_def)
  then have "updateChildren e (\<lambda>cs. []) rt = updateChildren e (\<lambda>cs. cs) rt"
    by (intro updateChildren_cong) simp
  also have "\<dots> = rt"
  proof (induction e arbitrary: rt)
    case Nil then show ?case by (cases rt) auto
  next
    case (Cons i e) then show ?case by (cases rt) (auto simp: list_update_same_conv)
  qed
  finally show ?thesis using True by (simp add: batchRemove_def flatRanges_createIn)
next
  case False
  then have "batchRemove (createIn rt e) rt = removeFlat (createIn rt e) rt"
    by (simp add: batchRemove_def flatRanges_createIn)
  also have "\<dots> = updateChildren e (\<lambda>cs. []) rt"
    unfolding removeFlat_def
    by (simp add: createIn_def createAt_def createAtEnd_def maxOffset_def)
      (rule updateChildren_cong, simp)
  finally show ?thesis .
qed

lemma reportedCounts_append:
  "reportedCounts (xs @ ys) = reportedCounts xs @ reportedCounts ys"
  by (induction xs rule: reportedCounts.induct) simp_all

lemma deleteContentCalls_append:
  "deleteContentCalls (xs @ ys) = deleteContentCalls xs @ deleteContentCalls ys"
  by (induction xs rule: deleteContentCalls.induct) simp_all

lemma foldl_plus_sum_list:
  "foldl (\<lambda>acc x. acc + f x) a xs = a + sum_list (map f xs)"
  for a :: nat
  by (induction xs arbitrary: a) simp_all

section \<open>The two paths through the command\<close>

lemma should_state:
  "snd (shouldEntireContentBeReplacedWithParagraph ed n st) = st"
  by (simp add: shouldEntireContentBeReplacedWithParagraph_def Let_def)

lemma should_reads_document:
  "fst (shouldEntireContentBeReplacedWithParagraph ed n (st\<lparr>buffer := b, trace := t\<rparr>)) =
   fst (shouldEntireContentBeReplacedWithParagraph ed n st)"
  by (simp add: shouldEntireContentBeReplacedWithParagraph_def Let_def)

lemma working_collapsed_was_collapsed:
  "isCollapsed (workingSelection ed dir opts st) \<Longrightarrow> isCollapsed (docSelection st)"
  by (simp add: workingSelection_def split: if_splits)

lemma unlock_input_lock:
  "input n (lock b) = Inr (lock b\<lparr>bufferSize := bufferSize b + n\<rparr>)"
  "unlock (lock b\<lparr>bufferSize := k\<rparr>) = b\<lparr>bufferSize := k\<rparr>"
  by (simp_all add: input_def lock_def unlock_def)

lemma execute_still_collapsed:
  assumes "isCollapsed (workingSelection ed dir opts st)"
  shows "execute ed dir opts st =
     (if fst (shouldEntireContentBeReplacedWithParagraph ed (sequenceOrDefault opts) st)
      then Inr (replaceEntireContentWithParagraph ed
             (st\<lparr>buffer := lock (buffer st),
                 trace := trace st @ [Lock, ModifySelection dir (unit opts)]\<rparr>))
      else Inr (st\<lparr>buffer := lock (buffer st),
                 trace := trace st @ [Lock, ModifySelection dir (unit opts)]\<rparr>))"
proof -
  let ?st2 = "st\<lparr>buffer := lock (buffer st),
                 trace := trace st @ [Lock, ModifySelection dir (unit opts)]\<rparr>"
  have was: "isCollapsed (docSelection st)"
    using assms by (rule working_collapsed_was_collapsed)
  with assms have still: "isCollapsed (modifySelection ed dir (unit opts) (root st) (docSelection st))"
    by (simp add: workingSelection_def)
  obtain b s where bs: "shouldEntireContentBeReplacedWithParagraph ed (sequenceOrDefault opts) ?st2 = (b, s)"
    by (cases "shouldEntireContentBeReplacedWithParagraph ed (sequenceOrDefault opts) ?st2")
  from should_state[of ed "sequenceOrDefault opts" ?st2] bs have s: "s = ?st2" by simp
  from should_reads_document[where ed = ed and n = "sequenceOrDefault opts" and st = st
      and b = "lock (buffer st)"
      and t = "trace st @ [Lock, ModifySelection dir (unit opts)]"] bs
  have b: "b = fst (shouldEntireContentBeReplacedWithParagraph ed (sequenceOrDefault opts) st)"
    by simp
  show ?thesis
    unfolding execute_def using was still bs s b
    by (simp add: Let_def)
qed

lemma execute_not_collapsed:
  assumes "\<not> isCollapsed (workingSelection ed dir opts st)"
    and "deleteContent ed (workingSelection ed dir opts st) (isCollapsed (docSelection st))
           (root st) (docSelection st) = (root', live', selection2)"
  shows "execute ed dir opts st =
     Inr \<lparr>root = root',
          docSelection = setRanges (getRanges selection2) (isBackward selection2) live',
          buffer = (buffer st)\<lparr>bufferSize :=
                     bufferSize (buffer st) + changeCountOf (root st) (workingSelection ed dir opts st)\<rparr>,
          trace = trace st @ Lock #
            (if isCollapsed (docSelection st) then [ModifySelection dir (unit opts)] else []) @
            [DeleteContent (workingSelection ed dir opts st) (isCollapsed (docSelection st)),
             Input (changeCountOf (root st) (workingSelection ed dir opts st)),
             SetRanges (getRanges selection2) (isBackward selection2),
             Unlock]\<rparr>"
proof (cases "isCollapsed (docSelection st)")
  case True
  with assms show ?thesis
    unfolding execute_def
    by (simp add: Let_def workingSelection_def unlock_input_lock)
next
  case False
  with assms show ?thesis
    unfolding execute_def
    by (simp add: Let_def workingSelection_def unlock_input_lock)
qed

lemma execute_early_return_lock_depth:
  assumes "isCollapsed (workingSelection ed dir opts st)"
    and "execute ed dir opts st = Inr st'"
  shows "lockDepth (buffer st') = Suc (lockDepth (buffer st))"
  using assms(2) unfolding execute_still_collapsed[OF assms(1)]
  by (auto simp: replaceEntireContentWithParagraph_def Let_def lock_def split: if_splits)

lemma execute_full_path_lock_depth:
  assumes "\<not> isCollapsed (workingSelection ed dir opts st)"
    and "execute ed dir opts st = Inr st'"
  shows "lockDepth (buffer st') = lockDepth (buffer st)"
proof -
  obtain r l s where "deleteContent ed (workingSelection ed dir opts st)
      (isCollapsed (docSelection st)) (root st) (docSelection st) = (r, l, s)"
    by (metis prod_cases3)
  from execute_not_collapsed[OF assms(1) this] assms(2) show ?thesis by auto
qed

lemma replaceEntireContentWithParagraph_result:
  "replaceEntireContentWithParagraph ed st =
     st\<lparr>root := updateChildren (getLimitElement ed (root st) (docSelection st))
                   (\<lambda>cs. [Element ''paragraph'' []]) (root st),
        docSelection :=
          \<lparr>range0 =
             \<lparr>rangeStart = \<lparr>parent = getLimitElement ed (root st) (docSelection st) @ [0], offset = 0\<rparr>,
              rangeEnd = \<lparr>parent = getLimitElement ed (root st) (docSelection st) @ [0], offset = 0\<rparr>\<rparr>,
           moreRanges = [], lastRangeBackward = False\<rparr>,
        trace := trace st @
          [Remove (createIn (root st) (getLimitElement ed (root st) (docSelection st))),
           Insert (createAt (getLimitElement ed (root st) (docSelection st))) (Element ''paragraph'' []),
           Collapse (getLimitElement ed (root st) (docSelection st) @ [0])]\<rparr>"
  by (simp add: replaceEntireContentWithParagraph_def Let_def batchRemove_createIn
      batchInsert_def updateChildren_twice collapse_def createAt_def getPath_def)

lemma predicate_guard:
  "fst (shouldEntireContentBeReplacedWithParagraph ed seqNo st) =
     (seqNo \<le> 1
      \<and> isTouching ed (root st) (createAt (getLimitElement ed (root st) (docSelection st)))
            (getFirstPosition (docSelection st))
      \<and> isTouching ed (root st)
            (createAtEnd (root st) (getLimitElement ed (root st) (docSelection st)))
            (getLastPosition (docSelection st))
      \<and> schemaCheck ed ''paragraph''
            (elementName (root st) (getLimitElement ed (root st) (docSelection st)))
      \<and> elementName (root st) (getCommonAncestor (getFirstRange (docSelection st)))
            \<noteq> Some ''paragraph'')"
  by (simp add: shouldEntireContentBeReplacedWithParagraph_def Let_def)

section \<open>The claims\<close>

subsection \<open>C1: the aggregation scope\<close>

text \<open>
  C1 says that every call of \<^verbatim>\<open>execute\<close> leaves the lock depth of the change buffer as
  it found it, also on the early return taken when the selection stays collapsed. The
  command locks at line 68 and unlocks at line 108 only; the \<^verbatim>\<open>return\<close> of line 92 is
  before the unlock. On \<^verbatim>\<open><heading1>[]</heading1>\<close> with a held key (sequence 2) the
  selection cannot be extended, nothing is replaced, and the call returns with the
  depth at 1 where it was 0: the trace holds the lock and no unlock. (Lemma
  \<open>execute_early_return_lock_depth\<close> shows the same for every early return, and
  \<open>execute_full_path_lock_depth\<close> that the full path is balanced.)
\<close>

theorem C1_lock_kept_on_early_return:
  "execute exampleEditor Backward \<lparr>unit = None, sequence = Some 2\<rparr> emptyHeading =
     Inr (emptyHeading\<lparr>buffer := \<lparr>lockDepth = 1, bufferSize = 0\<rparr>,
                        trace := [Lock, ModifySelection Backward None]\<rparr>)
   \<and> lockDepth (buffer emptyHeading) = 0"
  by code_simp

subsection \<open>C2: the entire-content-replacement predicate\<close>

text \<open>
  C2: for a sequence in the documented domain (an integer of at least 1, section 4.1
  of the spec and the event data the option carries), the predicate returns true if and
  only if all four conditions hold: the sequence is 1, the first position of the
  document's selection touches the start boundary of the limit element and its last
  position the end boundary, the schema permits a paragraph inside the limit element,
  and the common ancestor of the selection's first range is not a paragraph; if any of
  them fails it returns false. (Lemma \<open>predicate_guard\<close> gives the predicate for every
  integer: the guard of line 128 is \<^verbatim>\<open>sequence > 1\<close>.)
\<close>

theorem C2_predicate_iff:
  assumes "1 \<le> seqNo"
  shows "fst (shouldEntireContentBeReplacedWithParagraph ed seqNo st) =
     (seqNo = 1
      \<and> isTouching ed (root st) (createAt (getLimitElement ed (root st) (docSelection st)))
            (getFirstPosition (docSelection st))
      \<and> isTouching ed (root st)
            (createAtEnd (root st) (getLimitElement ed (root st) (docSelection st)))
            (getLastPosition (docSelection st))
      \<and> schemaCheck ed ''paragraph''
            (elementName (root st) (getLimitElement ed (root st) (docSelection st)))
      \<and> elementName (root st) (getCommonAncestor (getFirstRange (docSelection st)))
            \<noteq> Some ''paragraph'')"
proof -
  from assms have "(seqNo \<le> 1) = (seqNo = 1)" by arith
  then show ?thesis unfolding predicate_guard by simp
qed

text \<open>
  The predicate on three documents: true on \<^verbatim>\<open><heading1>[]</heading1>\<close> at sequence 1,
  false there at sequence 2, false on \<^verbatim>\<open><paragraph>[]</paragraph>\<close> (the common
  ancestor is a paragraph already) and false on \<^verbatim>\<open>He[llo] World\<close> (the selection does
  not touch the boundaries).
\<close>

theorem C2_predicate_iff_witness:
  "(1 :: int) \<le> 1 \<and> (1 :: int) \<le> 2
   \<and> fst (shouldEntireContentBeReplacedWithParagraph exampleEditor 1 emptyHeading)
   \<and> \<not> fst (shouldEntireContentBeReplacedWithParagraph exampleEditor 2 emptyHeading)
   \<and> \<not> fst (shouldEntireContentBeReplacedWithParagraph exampleEditor 1 emptyParagraph)
   \<and> \<not> fst (shouldEntireContentBeReplacedWithParagraph exampleEditor 1 helloWorld)"
proof -
  have one: "(1 :: int) \<le> 1" and two: "(1 :: int) \<le> 2" by simp_all
  have "fst (shouldEntireContentBeReplacedWithParagraph exampleEditor 1 emptyHeading)"
    unfolding C2_predicate_iff[OF one] by code_simp
  moreover have "\<not> fst (shouldEntireContentBeReplacedWithParagraph exampleEditor 2 emptyHeading)"
    unfolding C2_predicate_iff[OF two] by simp
  moreover have "\<not> fst (shouldEntireContentBeReplacedWithParagraph exampleEditor 1 emptyParagraph)"
    unfolding C2_predicate_iff[OF one] by code_simp
  moreover have "\<not> fst (shouldEntireContentBeReplacedWithParagraph exampleEditor 1 helloWorld)"
    unfolding C2_predicate_iff[OF one] by code_simp
  ultimately show ?thesis by simp
qed

subsection \<open>C3: replacing the entire content\<close>

text \<open>
  C3: when the call of the entire-content-replacement predicate at line 88 returns true
  (the working selection is still collapsed there), \<^verbatim>\<open>execute\<close> removes the range that
  spans the content of the limit element, inserts one new empty paragraph at the start
  of the limit element, which is then its only child, and collapses the document's
  selection inside that paragraph. The rest of the tree is as before: the new tree is
  the old one with the children of the limit element replaced. The root of a document
  is an element.
\<close>

theorem C3_replacement:
  assumes "nodeName (root st) = Some rootName"
    and "isCollapsed (workingSelection ed dir opts st)"
    and "fst (shouldEntireContentBeReplacedWithParagraph ed (sequenceOrDefault opts) st)"
  shows "\<exists>st'. execute ed dir opts st = Inr st'
     \<and> root st' = updateChildren (getLimitElement ed (root st) (docSelection st))
                    (\<lambda>cs. [Element ''paragraph'' []]) (root st)
     \<and> childrenAt (root st') (getLimitElement ed (root st) (docSelection st))
         = [Element ''paragraph'' []]
     \<and> docSelection st' =
         \<lparr>range0 =
            \<lparr>rangeStart = \<lparr>parent = getLimitElement ed (root st) (docSelection st) @ [0], offset = 0\<rparr>,
             rangeEnd = \<lparr>parent = getLimitElement ed (root st) (docSelection st) @ [0], offset = 0\<rparr>\<rparr>,
          moreRanges = [], lastRangeBackward = False\<rparr>
     \<and> isCollapsed (docSelection st')
     \<and> trace st' = trace st @
         [Lock, ModifySelection dir (unit opts),
          Remove (createIn (root st) (getLimitElement ed (root st) (docSelection st))),
          Insert (createAt (getLimitElement ed (root st) (docSelection st))) (Element ''paragraph'' []),
          Collapse (getLimitElement ed (root st) (docSelection st) @ [0])]"
proof -
  let ?lim = "getLimitElement ed (root st) (docSelection st)"
  from findLimit_is_element[OF assms(1)] obtain nm where "elementName (root st) ?lim = Some nm"
    unfolding getLimitElement_def by blast
  then have sole: "childrenAt (updateChildren ?lim (\<lambda>cs. [Element ''paragraph'' []]) (root st)) ?lim
      = [Element ''paragraph'' []]"
    by (rule childrenAt_updateChildren)
  show ?thesis
    unfolding execute_still_collapsed[OF assms(2)]
    using assms(3) sole
    by (simp add: replaceEntireContentWithParagraph_result isCollapsed_def)
qed

text \<open>\<^verbatim>\<open><heading1>[]</heading1>\<close> becomes \<^verbatim>\<open><paragraph>[]</paragraph>\<close>.\<close>

theorem C3_replacement_witness:
  "nodeName (root emptyHeading) = Some ''$root''
   \<and> isCollapsed (workingSelection exampleEditor Backward \<lparr>unit = None, sequence = None\<rparr> emptyHeading)
   \<and> fst (shouldEntireContentBeReplacedWithParagraph exampleEditor 1 emptyHeading)
   \<and> getLimitElement exampleEditor (root emptyHeading) (docSelection emptyHeading) = []
   \<and> (\<exists>st'. execute exampleEditor Backward \<lparr>unit = None, sequence = None\<rparr> emptyHeading = Inr st'
        \<and> root st' = Element ''$root'' [Element ''paragraph'' []]
        \<and> docSelection st' = caret [0] 0
        \<and> trace st' =
            [Lock, ModifySelection Backward None,
             Remove \<lparr>rangeStart = \<lparr>parent = [], offset = 0\<rparr>, rangeEnd = \<lparr>parent = [], offset = 1\<rparr>\<rparr>,
             Insert \<lparr>parent = [], offset = 0\<rparr> (Element ''paragraph'' []),
             Collapse [0]])"
proof -
  let ?opts = "\<lparr>unit = None, sequence = None\<rparr>"
  have h1: "nodeName (root emptyHeading) = Some ''$root''" by code_simp
  have h2: "isCollapsed (workingSelection exampleEditor Backward ?opts emptyHeading)" by code_simp
  have sq: "sequenceOrDefault ?opts = 1" by (simp add: sequenceOrDefault_def)
  have h3: "fst (shouldEntireContentBeReplacedWithParagraph exampleEditor 1 emptyHeading)"
    by code_simp
  have lim: "getLimitElement exampleEditor (root emptyHeading) (docSelection emptyHeading) = []"
    by code_simp
  have rt: "root emptyHeading = Element ''$root'' [Element ''heading1'' []]"
    and tr: "trace emptyHeading = []"
    by (simp_all add: emptyHeading_def)
  from h3 sq have h3': "fst (shouldEntireContentBeReplacedWithParagraph exampleEditor
      (sequenceOrDefault ?opts) emptyHeading)" by simp
  from C3_replacement[OF h1 h2 h3', unfolded lim] obtain st' where
    "execute exampleEditor Backward ?opts emptyHeading = Inr st'"
    "root st' = Element ''$root'' [Element ''paragraph'' []]"
    "docSelection st' = caret [0] 0"
    "trace st' =
       [Lock, ModifySelection Backward None,
        Remove \<lparr>rangeStart = \<lparr>parent = [], offset = 0\<rparr>, rangeEnd = \<lparr>parent = [], offset = 1\<rparr>\<rparr>,
        Insert \<lparr>parent = [], offset = 0\<rparr> (Element ''paragraph'' []),
        Collapse [0]]"
    by (auto simp: rt tr caret_def createIn_def createAt_def createAtEnd_def maxOffset_def
        childrenAt_def)
  with h1 h2 h3 lim show ?thesis by blast
qed

subsection \<open>C4: nothing to delete and no replacement\<close>

text \<open>
  C4: when the working selection is still collapsed after the extension attempt and the
  replacement predicate is false, as it is for every sequence greater than 1,
  \<^verbatim>\<open>execute\<close> leaves the document tree and the document's selection unchanged: nothing
  is removed, no paragraph is inserted and no count is reported to the change buffer.
\<close>

theorem C4_nothing_to_delete:
  assumes "isCollapsed (workingSelection ed dir opts st)"
    and "1 < sequenceOrDefault opts
         \<or> \<not> fst (shouldEntireContentBeReplacedWithParagraph ed (sequenceOrDefault opts) st)"
  shows "\<exists>st'. execute ed dir opts st = Inr st'
     \<and> root st' = root st
     \<and> docSelection st' = docSelection st
     \<and> bufferSize (buffer st') = bufferSize (buffer st)
     \<and> reportedCounts (trace st') = reportedCounts (trace st)
     \<and> trace st' = trace st @ [Lock, ModifySelection dir (unit opts)]"
proof -
  have "1 < sequenceOrDefault opts \<Longrightarrow>
      \<not> fst (shouldEntireContentBeReplacedWithParagraph ed (sequenceOrDefault opts) st)"
    by (simp add: shouldEntireContentBeReplacedWithParagraph_def)
  with assms(2) have
    "\<not> fst (shouldEntireContentBeReplacedWithParagraph ed (sequenceOrDefault opts) st)"
    by blast
  then show ?thesis
    unfolding execute_still_collapsed[OF assms(1)]
    by (simp add: reportedCounts_append lock_def)
qed

text \<open>A held key on \<^verbatim>\<open><heading1>[]</heading1>\<close>, and a single key press on
  \<^verbatim>\<open><paragraph>[]</paragraph>\<close>, where the predicate is false.\<close>

theorem C4_nothing_to_delete_witness:
  "isCollapsed (workingSelection exampleEditor Backward \<lparr>unit = None, sequence = Some 2\<rparr> emptyHeading)
   \<and> 1 < sequenceOrDefault \<lparr>unit = None, sequence = Some 2\<rparr>
   \<and> (\<exists>st'. execute exampleEditor Backward \<lparr>unit = None, sequence = Some 2\<rparr> emptyHeading = Inr st'
        \<and> root st' = Element ''$root'' [Element ''heading1'' []]
        \<and> docSelection st' = caret [0] 0
        \<and> reportedCounts (trace st') = [])
   \<and> isCollapsed (workingSelection exampleEditor Backward \<lparr>unit = None, sequence = None\<rparr> emptyParagraph)
   \<and> \<not> fst (shouldEntireContentBeReplacedWithParagraph exampleEditor
            (sequenceOrDefault \<lparr>unit = None, sequence = None\<rparr>) emptyParagraph)
   \<and> (\<exists>st'. execute exampleEditor Backward \<lparr>unit = None, sequence = None\<rparr> emptyParagraph = Inr st'
        \<and> root st' = Element ''$root'' [Element ''paragraph'' []]
        \<and> docSelection st' = caret [0] 0
        \<and> reportedCounts (trace st') = [])"
proof -
  let ?held = "\<lparr>unit = None, sequence = Some 2\<rparr>"
  let ?once = "\<lparr>unit = None, sequence = None\<rparr>"
  have a1: "isCollapsed (workingSelection exampleEditor Backward ?held emptyHeading)" by code_simp
  have a2: "1 < sequenceOrDefault ?held" by (simp add: sequenceOrDefault_def)
  have b1: "isCollapsed (workingSelection exampleEditor Backward ?once emptyParagraph)" by code_simp
  have b2: "\<not> fst (shouldEntireContentBeReplacedWithParagraph exampleEditor
            (sequenceOrDefault ?once) emptyParagraph)" by code_simp
  have a: "\<exists>st'. execute exampleEditor Backward ?held emptyHeading = Inr st'
        \<and> root st' = Element ''$root'' [Element ''heading1'' []]
        \<and> docSelection st' = caret [0] 0
        \<and> reportedCounts (trace st') = []"
    using C4_nothing_to_delete[OF a1 disjI1[OF a2]] by (auto simp: emptyHeading_def)
  have b: "\<exists>st'. execute exampleEditor Backward ?once emptyParagraph = Inr st'
        \<and> root st' = Element ''$root'' [Element ''paragraph'' []]
        \<and> docSelection st' = caret [0] 0
        \<and> reportedCounts (trace st') = []"
    using C4_nothing_to_delete[OF b1 disjI2[OF b2]] by (auto simp: emptyParagraph_def)
  from a1 a2 a b1 b2 b show ?thesis by blast
qed

subsection \<open>C5: the count reported to the change buffer\<close>

text \<open>
  C5: on the path of a working selection that is not collapsed, the count reported to
  the change buffer is the sum, over the minimal flat ranges of the working selection's
  first range, of the number of items a shallow single-character walk of the flat range
  yields, ends of elements not counted; the walk is of the tree as it is before the
  content is removed. The count is a sum over the flat ranges, so it is additive across
  them.
\<close>

theorem C5_reported_count:
  assumes "\<not> isCollapsed (workingSelection ed dir opts st)"
  shows "\<exists>st'. execute ed dir opts st = Inr st'
     \<and> reportedCounts (trace st') = reportedCounts (trace st) @
         [sum_list (map (\<lambda>r. count (getWalker (root st) r))
            (getMinimalFlatRanges (root st) (getFirstRange (workingSelection ed dir opts st))))]
     \<and> bufferSize (buffer st') = bufferSize (buffer st) +
         sum_list (map (\<lambda>r. count (getWalker (root st) r))
            (getMinimalFlatRanges (root st) (getFirstRange (workingSelection ed dir opts st))))"
proof -
  obtain r l s where "deleteContent ed (workingSelection ed dir opts st)
      (isCollapsed (docSelection st)) (root st) (docSelection st) = (r, l, s)"
    by (metis prod_cases3)
  from execute_not_collapsed[OF assms this] show ?thesis
    by (simp add: reportedCounts_append changeCountOf_def foldl_plus_sum_list)
qed

text \<open>\<^verbatim>\<open><paragraph>[abc</paragraph><paragraph>def]</paragraph>\<close>: two flat ranges of
  three items each, and the count 6.\<close>

theorem C5_reported_count_witness:
  "\<not> isCollapsed (workingSelection exampleEditor Backward \<lparr>unit = None, sequence = None\<rparr> twoSiblings)
   \<and> getMinimalFlatRanges (root twoSiblings)
        (getFirstRange (workingSelection exampleEditor Backward \<lparr>unit = None, sequence = None\<rparr> twoSiblings))
      = [\<lparr>rangeStart = \<lparr>parent = [0], offset = 0\<rparr>, rangeEnd = \<lparr>parent = [0], offset = 3\<rparr>\<rparr>,
         \<lparr>rangeStart = \<lparr>parent = [1], offset = 0\<rparr>, rangeEnd = \<lparr>parent = [1], offset = 3\<rparr>\<rparr>]
   \<and> count (getWalker (root twoSiblings)
        \<lparr>rangeStart = \<lparr>parent = [0], offset = 0\<rparr>, rangeEnd = \<lparr>parent = [0], offset = 3\<rparr>\<rparr>) = 3
   \<and> count (getWalker (root twoSiblings)
        \<lparr>rangeStart = \<lparr>parent = [1], offset = 0\<rparr>, rangeEnd = \<lparr>parent = [1], offset = 3\<rparr>\<rparr>) = 3
   \<and> (\<exists>st'. execute exampleEditor Backward \<lparr>unit = None, sequence = None\<rparr> twoSiblings = Inr st'
        \<and> reportedCounts (trace st') = [6] \<and> bufferSize (buffer st') = 6)"
proof -
  let ?opts = "\<lparr>unit = None, sequence = None\<rparr>"
  have h: "\<not> isCollapsed (workingSelection exampleEditor Backward ?opts twoSiblings)" by code_simp
  have fr: "getMinimalFlatRanges (root twoSiblings)
        (getFirstRange (workingSelection exampleEditor Backward ?opts twoSiblings))
      = [\<lparr>rangeStart = \<lparr>parent = [0], offset = 0\<rparr>, rangeEnd = \<lparr>parent = [0], offset = 3\<rparr>\<rparr>,
         \<lparr>rangeStart = \<lparr>parent = [1], offset = 0\<rparr>, rangeEnd = \<lparr>parent = [1], offset = 3\<rparr>\<rparr>]"
    by code_simp
  have c1: "count (getWalker (root twoSiblings)
        \<lparr>rangeStart = \<lparr>parent = [0], offset = 0\<rparr>, rangeEnd = \<lparr>parent = [0], offset = 3\<rparr>\<rparr>) = 3"
    by code_simp
  have c2: "count (getWalker (root twoSiblings)
        \<lparr>rangeStart = \<lparr>parent = [1], offset = 0\<rparr>, rangeEnd = \<lparr>parent = [1], offset = 3\<rparr>\<rparr>) = 3"
    by code_simp
  have tr: "trace twoSiblings = []" "bufferSize (buffer twoSiblings) = 0"
    by (simp_all add: twoSiblings_def)
  have six: "sum_list (map (\<lambda>r. count (getWalker (root twoSiblings) r))
      (getMinimalFlatRanges (root twoSiblings)
        (getFirstRange (workingSelection exampleEditor Backward ?opts twoSiblings)))) = 6"
    by code_simp
  from C5_reported_count[OF h, unfolded six] have
    "\<exists>st'. execute exampleEditor Backward ?opts twoSiblings = Inr st'
        \<and> reportedCounts (trace st') = [6] \<and> bufferSize (buffer st') = 6"
    by (simp add: tr)
  with h fr c1 c2 show ?thesis by blast
qed

subsection \<open>C6: the flag handed to the content remover\<close>

text \<open>
  C6: \<^verbatim>\<open>deleteContent\<close> is called once, with the working selection and with
  \<^verbatim>\<open>doNotResetEntireContent\<close> equal to the collapsed state the selection had before the
  extension attempt, not after it: for a selection that was collapsed and that the
  extension made non-collapsed the flag is true, for a selection that was not collapsed
  it is false. The tree \<^verbatim>\<open>execute\<close> leaves is the one that call returned.
\<close>

theorem C6_flag_from_before_extension:
  assumes "\<not> isCollapsed (workingSelection ed dir opts st)"
  shows "\<exists>st'. execute ed dir opts st = Inr st'
     \<and> deleteContentCalls (trace st') = deleteContentCalls (trace st) @
         [(workingSelection ed dir opts st, isCollapsed (docSelection st))]
     \<and> root st' = fst (deleteContent ed (workingSelection ed dir opts st)
                         (isCollapsed (docSelection st)) (root st) (docSelection st))
     \<and> (if isCollapsed (docSelection st)
         then deleteContentCalls (trace st') = deleteContentCalls (trace st) @
                [(modifySelection ed dir (unit opts) (root st) (docSelection st), True)]
         else deleteContentCalls (trace st') = deleteContentCalls (trace st) @
                [(docSelection st, False)])"
proof -
  obtain r l s where "deleteContent ed (workingSelection ed dir opts st)
      (isCollapsed (docSelection st)) (root st) (docSelection st) = (r, l, s)"
    by (metis prod_cases3)
  from execute_not_collapsed[OF assms this] this show ?thesis
    by (simp add: deleteContentCalls_append workingSelection_def)
qed

text \<open>\<^verbatim>\<open><heading1></heading1><paragraph>[]</paragraph>\<close>, the document of the comment at
  lines 72 to 76: the caret is extended across the boundary of the blocks and the flag
  is true, so the content is not reset.\<close>

theorem C6_flag_from_before_extension_witness:
  "isCollapsed (docSelection headingThenCaret)
   \<and> \<not> isCollapsed (workingSelection exampleEditor Backward \<lparr>unit = None, sequence = None\<rparr>
          headingThenCaret)
   \<and> (\<exists>st'. execute exampleEditor Backward \<lparr>unit = None, sequence = None\<rparr> headingThenCaret
          = Inr st'
        \<and> deleteContentCalls (trace st') =
            [(\<lparr>range0 = \<lparr>rangeStart = \<lparr>parent = [0], offset = 0\<rparr>,
                          rangeEnd = \<lparr>parent = [1], offset = 0\<rparr>\<rparr>,
               moreRanges = [], lastRangeBackward = True\<rparr>, True)]
        \<and> root st' = Element ''$root'' [Element ''heading1'' [], Element ''paragraph'' []])"
proof -
  let ?opts = "\<lparr>unit = None, sequence = None\<rparr>"
  have was: "isCollapsed (docSelection headingThenCaret)" by code_simp
  have h: "\<not> isCollapsed (workingSelection exampleEditor Backward ?opts headingThenCaret)"
    by code_simp
  have w: "workingSelection exampleEditor Backward ?opts headingThenCaret =
      \<lparr>range0 = \<lparr>rangeStart = \<lparr>parent = [0], offset = 0\<rparr>,
                 rangeEnd = \<lparr>parent = [1], offset = 0\<rparr>\<rparr>,
       moreRanges = [], lastRangeBackward = True\<rparr>"
    by code_simp
  have d: "fst (deleteContent exampleEditor
        (workingSelection exampleEditor Backward ?opts headingThenCaret)
        (isCollapsed (docSelection headingThenCaret))
        (root headingThenCaret) (docSelection headingThenCaret))
      = Element ''$root'' [Element ''heading1'' [], Element ''paragraph'' []]"
    by code_simp
  have tr: "trace headingThenCaret = []" by (simp add: headingThenCaret_def)
  from C6_flag_from_before_extension[OF h, unfolded d] have
    "\<exists>st'. execute exampleEditor Backward ?opts headingThenCaret = Inr st'
        \<and> deleteContentCalls (trace st') =
            [(\<lparr>range0 = \<lparr>rangeStart = \<lparr>parent = [0], offset = 0\<rparr>,
                          rangeEnd = \<lparr>parent = [1], offset = 0\<rparr>\<rparr>,
               moreRanges = [], lastRangeBackward = True\<rparr>, True)]
        \<and> root st' = Element ''$root'' [Element ''heading1'' [], Element ''paragraph'' []]"
    unfolding w using was by (auto simp: tr)
  with was h show ?thesis by blast
qed

subsection \<open>C7: the order of the mutations\<close>

text \<open>
  C7: on the path of a working selection that is not collapsed the calls are made in
  this order: \<^verbatim>\<open>deleteContent\<close>, then the report of the count to the change buffer, and
  only then \<^verbatim>\<open>setRanges\<close> on the document's selection, with the ranges and the
  direction the working selection has after the removal. Before \<^verbatim>\<open>deleteContent\<close> the
  command only locks the buffer and, for a collapsed selection, attempts the extension
  of its working copy; the document's selection \<^verbatim>\<open>setRanges\<close> is applied to is the one
  the removal left. Each step is there in the state the call leaves: the tree is the
  one \<^verbatim>\<open>deleteContent\<close> returned, the change buffer has taken in the count (its
  running count has grown by it, and its lock depth is as before the call), and the
  document's selection is the one \<^verbatim>\<open>setRanges\<close> made.
\<close>

theorem C7_order_of_mutations:
  assumes "\<not> isCollapsed (workingSelection ed dir opts st)"
    and "deleteContent ed (workingSelection ed dir opts st) (isCollapsed (docSelection st))
           (root st) (docSelection st) = (root', live', selection2)"
  shows "\<exists>st'. execute ed dir opts st = Inr st'
     \<and> trace st' = trace st @ Lock #
         (if isCollapsed (docSelection st) then [ModifySelection dir (unit opts)] else []) @
         [DeleteContent (workingSelection ed dir opts st) (isCollapsed (docSelection st)),
          Input (changeCountOf (root st) (workingSelection ed dir opts st)),
          SetRanges (getRanges selection2) (isBackward selection2),
          Unlock]
     \<and> root st' = root'
     \<and> buffer st' = (buffer st)\<lparr>bufferSize :=
           bufferSize (buffer st) + changeCountOf (root st) (workingSelection ed dir opts st)\<rparr>
     \<and> bufferSize (buffer st') =
           bufferSize (buffer st) + changeCountOf (root st) (workingSelection ed dir opts st)
     \<and> lockDepth (buffer st') = lockDepth (buffer st)
     \<and> docSelection st' = setRanges (getRanges selection2) (isBackward selection2) live'"
  unfolding execute_not_collapsed[OF assms] by simp

text \<open>\<^verbatim>\<open>He[llo] World\<close> becomes \<^verbatim>\<open>He[] World\<close> with the count 3.\<close>

theorem C7_order_of_mutations_witness:
  "\<not> isCollapsed (workingSelection exampleEditor Backward \<lparr>unit = None, sequence = None\<rparr> helloWorld)
   \<and> deleteContent exampleEditor
        (workingSelection exampleEditor Backward \<lparr>unit = None, sequence = None\<rparr> helloWorld)
        (isCollapsed (docSelection helloWorld)) (root helloWorld) (docSelection helloWorld)
      = (Element ''$root'' [Element ''paragraph'' (textOf ''He World'')],
         docSelection helloWorld, caret [0] 2)
   \<and> (\<exists>st'. execute exampleEditor Backward \<lparr>unit = None, sequence = None\<rparr> helloWorld = Inr st'
        \<and> trace st' =
            [Lock, DeleteContent (docSelection helloWorld) False, Input 3,
             SetRanges [\<lparr>rangeStart = \<lparr>parent = [0], offset = 2\<rparr>,
                         rangeEnd = \<lparr>parent = [0], offset = 2\<rparr>\<rparr>] False,
             Unlock]
        \<and> root st' = Element ''$root'' [Element ''paragraph'' (textOf ''He World'')]
        \<and> buffer st' = \<lparr>lockDepth = 0, bufferSize = 3\<rparr>
        \<and> docSelection st' = caret [0] 2)"
proof -
  let ?opts = "\<lparr>unit = None, sequence = None\<rparr>"
  have h: "\<not> isCollapsed (workingSelection exampleEditor Backward ?opts helloWorld)"
    by code_simp
  have d: "deleteContent exampleEditor
        (workingSelection exampleEditor Backward ?opts helloWorld)
        (isCollapsed (docSelection helloWorld)) (root helloWorld) (docSelection helloWorld)
      = (Element ''$root'' [Element ''paragraph'' (textOf ''He World'')],
         docSelection helloWorld, caret [0] 2)"
    by code_simp
  have was: "isCollapsed (docSelection helloWorld) = False" by code_simp
  have w: "workingSelection exampleEditor Backward ?opts helloWorld = docSelection helloWorld"
    by (simp add: workingSelection_def was)
  have n: "changeCountOf (root helloWorld) (docSelection helloWorld) = 3" by code_simp
  have g: "getRanges (caret [0] 2) = [\<lparr>rangeStart = \<lparr>parent = [0], offset = 2\<rparr>,
                         rangeEnd = \<lparr>parent = [0], offset = 2\<rparr>\<rparr>]"
      "isBackward (caret [0] 2) = False"
      "setRanges [\<lparr>rangeStart = \<lparr>parent = [0], offset = 2\<rparr>,
                         rangeEnd = \<lparr>parent = [0], offset = 2\<rparr>\<rparr>] False (docSelection helloWorld)
        = caret [0] 2"
    by code_simp+
  have tr: "trace helloWorld = []" "buffer helloWorld = \<lparr>lockDepth = 0, bufferSize = 0\<rparr>"
    by (simp_all add: helloWorld_def)
  from C7_order_of_mutations[OF h d] have
    "\<exists>st'. execute exampleEditor Backward ?opts helloWorld = Inr st'
        \<and> trace st' =
            [Lock, DeleteContent (docSelection helloWorld) False, Input 3,
             SetRanges [\<lparr>rangeStart = \<lparr>parent = [0], offset = 2\<rparr>,
                         rangeEnd = \<lparr>parent = [0], offset = 2\<rparr>\<rparr>] False,
             Unlock]
        \<and> root st' = Element ''$root'' [Element ''paragraph'' (textOf ''He World'')]
        \<and> buffer st' = \<lparr>lockDepth = 0, bufferSize = 3\<rparr>
        \<and> docSelection st' = caret [0] 2"
    unfolding w was n g tr by auto
  with h d show ?thesis by blast
qed

subsection \<open>C8: the unit option and a selection that is not collapsed\<close>

text \<open>
  C8: for a document selection that is not collapsed, two runs of \<^verbatim>\<open>execute\<close> on the
  same state whose options differ only in \<^verbatim>\<open>unit\<close> give the same result: the same
  document, selection, buffer and calls. The unit is read only by the extension call of
  line 81, which is made only for a collapsed selection.
\<close>

theorem C8_unit_unused_when_not_collapsed:
  assumes "\<not> isCollapsed (docSelection st)"
  shows "execute ed dir (opts\<lparr>unit := u\<rparr>) st = execute ed dir (opts\<lparr>unit := u'\<rparr>) st"
  using assms unfolding execute_def
  by (simp add: Let_def sequenceOrDefault_def)

text \<open>\<^verbatim>\<open>He[llo] World\<close> with the units \<^verbatim>\<open>character\<close> and \<^verbatim>\<open>word\<close>.\<close>

theorem C8_unit_unused_when_not_collapsed_witness:
  "\<not> isCollapsed (docSelection helloWorld)
   \<and> execute exampleEditor Backward \<lparr>unit = Some ''character'', sequence = None\<rparr> helloWorld
     = execute exampleEditor Backward \<lparr>unit = Some ''word'', sequence = None\<rparr> helloWorld"
proof -
  have h: "\<not> isCollapsed (docSelection helloWorld)" by code_simp
  from C8_unit_unused_when_not_collapsed[OF h, where ed = exampleEditor and dir = Backward
      and opts = "\<lparr>unit = None, sequence = None\<rparr>" and u = "Some ''character''"
      and u' = "Some ''word''"] h
  show ?thesis by simp
qed

subsection \<open>C9: a sequence of zero\<close>

text \<open>
  C9: a request with \<^verbatim>\<open>options.sequence\<close> equal to 0 is treated exactly as a request
  with sequence 1, and as one with no sequence: \<^verbatim>\<open>options.sequence || 1\<close> is 1 for it.
  So a sequence of 0 does not suppress the replacement of the entire content.
\<close>

theorem C9_sequence_zero_is_one:
  "execute ed dir (opts\<lparr>sequence := Some 0\<rparr>) st = execute ed dir (opts\<lparr>sequence := Some 1\<rparr>) st
   \<and> execute ed dir (opts\<lparr>sequence := Some 0\<rparr>) st = execute ed dir (opts\<lparr>sequence := None\<rparr>) st
   \<and> sequenceOrDefault (opts\<lparr>sequence := Some 0\<rparr>) = 1"
  by (simp_all add: execute_def sequenceOrDefault_def cong: if_cong)

text \<open>On \<^verbatim>\<open><heading1>[]</heading1>\<close> the sequences 0 and 1 replace the content with a
  paragraph, the sequence 2 does not.\<close>

theorem C9_sequence_zero_is_one_witness:
  "execute exampleEditor Backward \<lparr>unit = None, sequence = Some 0\<rparr> emptyHeading
     = execute exampleEditor Backward \<lparr>unit = None, sequence = Some 1\<rparr> emptyHeading
   \<and> execute exampleEditor Backward \<lparr>unit = None, sequence = Some 0\<rparr> emptyHeading
     = Inr \<lparr>root = Element ''$root'' [Element ''paragraph'' []],
            docSelection = caret [0] 0,
            buffer = \<lparr>lockDepth = 1, bufferSize = 0\<rparr>,
            trace = [Lock, ModifySelection Backward None,
                     Remove \<lparr>rangeStart = \<lparr>parent = [], offset = 0\<rparr>,
                             rangeEnd = \<lparr>parent = [], offset = 1\<rparr>\<rparr>,
                     Insert \<lparr>parent = [], offset = 0\<rparr> (Element ''paragraph'' []),
                     Collapse [0]]\<rparr>
   \<and> execute exampleEditor Backward \<lparr>unit = None, sequence = Some 2\<rparr> emptyHeading
     = Inr (emptyHeading\<lparr>buffer := \<lparr>lockDepth = 1, bufferSize = 0\<rparr>,
                         trace := [Lock, ModifySelection Backward None]\<rparr>)"
proof -
  have one: "execute exampleEditor Backward \<lparr>unit = None, sequence = Some 1\<rparr> emptyHeading
     = Inr \<lparr>root = Element ''$root'' [Element ''paragraph'' []],
            docSelection = caret [0] 0,
            buffer = \<lparr>lockDepth = 1, bufferSize = 0\<rparr>,
            trace = [Lock, ModifySelection Backward None,
                     Remove \<lparr>rangeStart = \<lparr>parent = [], offset = 0\<rparr>,
                             rangeEnd = \<lparr>parent = [], offset = 1\<rparr>\<rparr>,
                     Insert \<lparr>parent = [], offset = 0\<rparr> (Element ''paragraph'' []),
                     Collapse [0]]\<rparr>"
    by code_simp
  have two: "execute exampleEditor Backward \<lparr>unit = None, sequence = Some 2\<rparr> emptyHeading
     = Inr (emptyHeading\<lparr>buffer := \<lparr>lockDepth = 1, bufferSize = 0\<rparr>,
                         trace := [Lock, ModifySelection Backward None]\<rparr>)"
    by code_simp
  from C9_sequence_zero_is_one[of exampleEditor Backward "\<lparr>unit = None, sequence = None\<rparr>" emptyHeading]
  have zero: "execute exampleEditor Backward \<lparr>unit = None, sequence = Some 0\<rparr> emptyHeading
     = execute exampleEditor Backward \<lparr>unit = None, sequence = Some 1\<rparr> emptyHeading"
    by simp
  from zero one two show ?thesis by simp
qed

subsection \<open>C10: the predicate changes nothing\<close>

text \<open>
  C10: evaluating the entire-content-replacement predicate leaves the document tree, the
  document's selection and the change buffer as they were, whatever it returns. Every
  return of lines 126 to 155 hands back the state it was given.
\<close>

theorem C10_predicate_leaves_state:
  "snd (shouldEntireContentBeReplacedWithParagraph ed seqNo st) = st
   \<and> root (snd (shouldEntireContentBeReplacedWithParagraph ed seqNo st)) = root st
   \<and> docSelection (snd (shouldEntireContentBeReplacedWithParagraph ed seqNo st)) = docSelection st
   \<and> buffer (snd (shouldEntireContentBeReplacedWithParagraph ed seqNo st)) = buffer st"
  by (simp add: shouldEntireContentBeReplacedWithParagraph_def Let_def)

text \<open>One document on which the predicate is true and one on which it is false.\<close>

theorem C10_predicate_leaves_state_witness:
  "shouldEntireContentBeReplacedWithParagraph exampleEditor 1 emptyHeading = (True, emptyHeading)
   \<and> shouldEntireContentBeReplacedWithParagraph exampleEditor 1 emptyParagraph = (False, emptyParagraph)"
proof -
  have t: "fst (shouldEntireContentBeReplacedWithParagraph exampleEditor 1 emptyHeading)"
    by code_simp
  have f: "\<not> fst (shouldEntireContentBeReplacedWithParagraph exampleEditor 1 emptyParagraph)"
    by code_simp
  from t f C10_predicate_leaves_state[of exampleEditor 1 emptyHeading]
    C10_predicate_leaves_state[of exampleEditor 1 emptyParagraph]
  show ?thesis by (simp add: prod_eq_iff)
qed

end
